theory Spec2Isabelle
  imports Complex_Main "HOL-Library.Sublist"
begin

section \<open>JavaScript values\<close>

text \<open>
  The wallet server (\<^verbatim>\<open>server.js\<close>) is an Express application whose handlers read
  fields of a JSON request body and of a decoded token without checking their type.
  What a handler does therefore depends on the coercions of the language, so the
  values are modelled as JavaScript has them. The repository holds a remediated
  server beside it; its gates and two of its handlers are modelled further down, to
  set against the first.

  A number is a rational or \<^verbatim>\<open>NaN\<close>: every JSON numeric literal denotes a rational, and
  the model computes with it exactly. The rounding of IEEE doubles, the infinities and
  the negative zero are not modelled. Arrays and objects as field values are not
  modelled either.
\<close>

datatype num = NaN | Fin rat

datatype jsval =
    JUndefined
  | JNull
  | JBoolean bool
  | JNumber num
  | JString string

text \<open>\<^verbatim>\<open>ToBoolean\<close>: what \<^verbatim>\<open>!v\<close> and \<^verbatim>\<open>if (v)\<close> look at.\<close>

fun ToBoolean :: "jsval \<Rightarrow> bool" where
  "ToBoolean JUndefined = False"
| "ToBoolean JNull = False"
| "ToBoolean (JBoolean b) = b"
| "ToBoolean (JNumber NaN) = False"
| "ToBoolean (JNumber (Fin q)) = (q \<noteq> 0)"
| "ToBoolean (JString s) = (s \<noteq> [])"

text \<open>
  Strict equality \<^verbatim>\<open>===\<close>: same type and same value, and \<^verbatim>\<open>NaN\<close> equals nothing.
\<close>

definition strict_eq :: "jsval \<Rightarrow> jsval \<Rightarrow> bool" where
  "strict_eq a b = (a = b \<and> a \<noteq> JNumber NaN)"

text \<open>
  \<^verbatim>\<open>StringToNumber\<close> is modelled on the strings made of decimal digits only, where it
  is the number the digits write; on every other string the model gives no answer
  (\<open>None\<close>) rather than a guessed one.
\<close>

definition is_digit :: "char \<Rightarrow> bool" where
  "is_digit c = (48 \<le> (of_char c :: nat) \<and> (of_char c :: nat) \<le> 57)"

definition digits_value :: "string \<Rightarrow> nat" where
  "digits_value s = foldl (\<lambda>acc c. 10 * acc + ((of_char c :: nat) - 48)) 0 s"

definition StringToNumber :: "string \<Rightarrow> num option" where
  "StringToNumber s =
     (if s \<noteq> [] \<and> list_all is_digit s then Some (Fin (of_nat (digits_value s))) else None)"

fun ToNumber :: "jsval \<Rightarrow> num option" where
  "ToNumber JUndefined = Some NaN"
| "ToNumber JNull = Some (Fin 0)"
| "ToNumber (JBoolean b) = Some (Fin (if b then 1 else 0))"
| "ToNumber (JNumber n) = Some n"
| "ToNumber (JString s) = StringToNumber s"

text \<open>
  \<^verbatim>\<open>Number::toString\<close> is modelled on \<^verbatim>\<open>NaN\<close> and on the integers below \<open>10\<^sup>2\<^sup>1\<close> in
  absolute value, which JavaScript prints as their decimal digits.
\<close>

fun digits_of :: "nat \<Rightarrow> string" where
  "digits_of n =
     (if n < 10 then [''0123456789'' ! n] else digits_of (n div 10) @ [''0123456789'' ! (n mod 10)])"

definition NumberToString :: "num \<Rightarrow> string option" where
  "NumberToString n =
     (case n of
        NaN \<Rightarrow> Some ''NaN''
      | Fin q \<Rightarrow>
          (let (a, b) = quotient_of q in
           if b = 1 \<and> \<bar>a\<bar> < 10 ^ 21
           then Some ((if a < 0 then ''-'' else []) @ digits_of (nat \<bar>a\<bar>))
           else None))"

fun ToString :: "jsval \<Rightarrow> string option" where
  "ToString JUndefined = Some ''undefined''"
| "ToString JNull = Some ''null''"
| "ToString (JBoolean b) = Some (if b then ''true'' else ''false'')"
| "ToString (JNumber n) = NumberToString n"
| "ToString (JString s) = Some s"

text \<open>Arithmetic on numbers: \<^verbatim>\<open>NaN\<close> is absorbing.\<close>

fun num_add :: "num \<Rightarrow> num \<Rightarrow> num" where
  "num_add (Fin p) (Fin q) = Fin (p + q)"
| "num_add _ _ = NaN"

fun num_sub :: "num \<Rightarrow> num \<Rightarrow> num" where
  "num_sub (Fin p) (Fin q) = Fin (p - q)"
| "num_sub _ _ = NaN"

fun num_lt :: "num \<Rightarrow> num \<Rightarrow> bool" where
  "num_lt (Fin p) (Fin q) = (p < q)"
| "num_lt _ _ = False"

fun num_le :: "num \<Rightarrow> num \<Rightarrow> bool" where
  "num_le (Fin p) (Fin q) = (p \<le> q)"
| "num_le _ _ = False"

text \<open>Strings compare by code units, lexicographically.\<close>

fun str_lt :: "string \<Rightarrow> string \<Rightarrow> bool" where
  "str_lt [] [] = False"
| "str_lt [] (y # ys) = True"
| "str_lt (x # xs) [] = False"
| "str_lt (x # xs) (y # ys) =
     (if x = y then str_lt xs ys else (of_char x :: nat) < of_char y)"

fun is_string :: "jsval \<Rightarrow> bool" where
  "is_string (JString s) = True"
| "is_string _ = False"

text \<open>
  \<^verbatim>\<open>a - b\<close> converts both operands to numbers. \<^verbatim>\<open>a + b\<close> concatenates as soon as one
  operand is a string, and adds numbers otherwise.
\<close>

definition js_sub :: "jsval \<Rightarrow> jsval \<Rightarrow> jsval option" where
  "js_sub a b =
     (case (ToNumber a, ToNumber b) of
        (Some x, Some y) \<Rightarrow> Some (JNumber (num_sub x y))
      | _ \<Rightarrow> None)"

definition js_add :: "jsval \<Rightarrow> jsval \<Rightarrow> jsval option" where
  "js_add a b =
     (if is_string a \<or> is_string b
      then (case (ToString a, ToString b) of
              (Some s, Some t) \<Rightarrow> Some (JString (s @ t))
            | _ \<Rightarrow> None)
      else (case (ToNumber a, ToNumber b) of
              (Some x, Some y) \<Rightarrow> Some (JNumber (num_add x y))
            | _ \<Rightarrow> None))"

text \<open>
  \<^verbatim>\<open>a < b\<close> and \<^verbatim>\<open>a <= b\<close>: two strings compare as strings, anything else as numbers,
  and a comparison with \<^verbatim>\<open>NaN\<close> is false.
\<close>

definition js_lt :: "jsval \<Rightarrow> jsval \<Rightarrow> bool option" where
  "js_lt a b =
     (case (a, b) of
        (JString s, JString t) \<Rightarrow> Some (str_lt s t)
      | _ \<Rightarrow> (case (ToNumber a, ToNumber b) of
                (Some x, Some y) \<Rightarrow> Some (num_lt x y)
              | _ \<Rightarrow> None))"

definition js_le :: "jsval \<Rightarrow> jsval \<Rightarrow> bool option" where
  "js_le a b =
     (case (a, b) of
        (JString s, JString t) \<Rightarrow> Some (\<not> str_lt t s)
      | _ \<Rightarrow> (case (ToNumber a, ToNumber b) of
                (Some x, Some y) \<Rightarrow> Some (num_le x y)
              | _ \<Rightarrow> None))"

text \<open>\<^verbatim>\<open>String.prototype.split\<close> with a one-character separator.\<close>

fun split_js :: "char \<Rightarrow> string \<Rightarrow> string list" where
  "split_js c [] = [[]]"
| "split_js c (x # xs) =
     (if x = c then [] # split_js c xs
      else (case split_js c xs of
              [] \<Rightarrow> [[x]]
            | w # ws \<Rightarrow> (x # w) # ws))"

text \<open>Array indexing: \<^verbatim>\<open>undefined\<close> past the end.\<close>

definition at_js :: "'a list \<Rightarrow> nat \<Rightarrow> 'a option" where
  "at_js xs i = (if i < length xs then Some (xs ! i) else None)"

section \<open>Responses\<close>

text \<open>The value handed to \<^verbatim>\<open>res.json\<close>, and the reply with its status.\<close>

datatype json =
    Prim jsval
  | Object "(string \<times> json) list"
  | Array "json list"

datatype reply = Response (status: nat) (body: json)

abbreviation Str :: "string \<Rightarrow> json" where
  "Str s \<equiv> Prim (JString s)"

text \<open>
  A handler either answers, or ends with an exception before it has answered.
\<close>

datatype outcome = Replied reply | Threw

definition error_reply :: "nat \<Rightarrow> string \<Rightarrow> reply" where
  "error_reply code msg = Response code (Object [(''error'', Str msg)])"

section \<open>The in-memory store\<close>

record user =
  id_u :: string
  username :: jsval
  email :: jsval
  password :: string
  balance :: jsval
  role :: string

record transaction =
  id_t :: string
  senderId :: jsval
  recipientId :: jsval
  amount :: jsval
  timestamp :: string
  type_t :: string

record store =
  users :: "user list"
  transactions :: "transaction list"

text \<open>
  \<^verbatim>\<open>users.find(p)\<close> returns a reference to the first object that satisfies \<open>p\<close>; the
  handlers write through it. The reference is modelled as the position of the object
  in \<^verbatim>\<open>users\<close>.
\<close>

fun findIndex :: "('a \<Rightarrow> bool) \<Rightarrow> 'a list \<Rightarrow> nat option" where
  "findIndex p [] = None"
| "findIndex p (x # xs) =
     (if p x then Some 0 else map_option Suc (findIndex p xs))"

definition findUserById :: "store \<Rightarrow> jsval \<Rightarrow> nat option" where
  "findUserById st i = findIndex (\<lambda>user. strict_eq (JString (id_u user)) i) (users st)"

definition findUserByUsername :: "store \<Rightarrow> jsval \<Rightarrow> nat option" where
  "findUserByUsername st name = findIndex (\<lambda>user. strict_eq (username user) name) (users st)"

section \<open>Authentication middleware\<close>

text \<open>The payload that \<^verbatim>\<open>jwt.sign\<close> is given at login and \<^verbatim>\<open>jwt.verify\<close> gives back.\<close>

record decoded =
  userId_tok :: jsval
  username_tok :: jsval
  role_tok :: jsval

definition JWT_SECRET :: string where
  "JWT_SECRET = ''secret123''"

text \<open>
  \<^verbatim>\<open>jwt.verify\<close> belongs to the \<^verbatim>\<open>jsonwebtoken\<close> package and is a parameter here: given
  the token and the secret it either throws an error, of which the middleware reads
  the message (\<open>Inl\<close>), or returns the payload (\<open>Inr\<close>).

  \<^verbatim>\<open>authenticateToken\<close> either answers the request itself (\<open>Inl\<close>) or sets
  \<^verbatim>\<open>req.user\<close> and calls the next handler (\<open>Inr\<close>).
\<close>

type_synonym verifier = "string \<Rightarrow> string \<Rightarrow> string + decoded"

definition authenticateToken :: "verifier \<Rightarrow> string option \<Rightarrow> reply + decoded" where
  "authenticateToken jwt_verify authHeader =
     (let token = (case authHeader of
                     None \<Rightarrow> None
                   | Some h \<Rightarrow> if h = [] then Some [] else at_js (split_js CHR '' '' h) 1)
      in case token of
           None \<Rightarrow> Inl (error_reply 401 ''Access token required'')
         | Some t \<Rightarrow>
             if t = [] then Inl (error_reply 401 ''Access token required'')
             else (case jwt_verify t JWT_SECRET of
                     Inr payload \<Rightarrow> Inr payload
                   | Inl message \<Rightarrow>
                       Inl (Response 403
                             (Object [(''error'', Str ''Invalid token''),
                                      (''details'', Str message)]))))"

section \<open>Request handlers\<close>

text \<open>
  \<^verbatim>\<open>req.body\<close> is the parsed JSON object; a field it does not have reads as
  \<^verbatim>\<open>undefined\<close>. Each handler below takes \<^verbatim>\<open>req.user\<close> as set by the middleware,
  whether it reads it or not, and returns the store together with its reply.
\<close>

type_synonym body = "string \<Rightarrow> jsval"

definition no_fields :: body where
  "no_fields = (\<lambda>k. JUndefined)"

subsection \<open>Registration\<close>

text \<open>
  \<^verbatim>\<open>uuidv4()\<close> and \<^verbatim>\<open>await bcrypt.hash(password, 10)\<close> are calls into packages, and
  what they give is an argument of the model: the identifier, and the hash when the
  promise resolves (\<open>Some\<close>) or nothing when it rejects (\<open>None\<close>), in which case the
  exception ends the handler before any user is created.

  The operands of \<^verbatim>\<open>||\<close> are evaluated from the left, up to the first true one.
\<close>

definition register :: "store \<Rightarrow> body \<Rightarrow> string \<Rightarrow> string option \<Rightarrow> store \<times> outcome" where
  "register st b uuid bcrypt_hash =
     (let username = b ''username''; password = b ''password''; email = b ''email'' in
      if \<not> ToBoolean username
      then (st, Replied (error_reply 400 ''Username and password required''))
      else if \<not> ToBoolean password
      then (st, Replied (error_reply 400 ''Username and password required''))
      else if findUserByUsername st username \<noteq> None
      then (st, Replied (error_reply 400 ''User already exists''))
      else
        (case bcrypt_hash of
           None \<Rightarrow> (st, Threw)
         | Some hashedPassword \<Rightarrow>
             (let newUser = \<lparr>id_u = uuid, username = username, email = email,
                              password = hashedPassword, balance = JNumber (Fin 1000),
                              role = ''user''\<rparr>
              in (st\<lparr>users := users st @ [newUser]\<rparr>,
                  Replied
                    (Response 201
                      (Object [(''message'', Str ''User created successfully''),
                               (''user'', Object [(''id'', Str (id_u newUser)),
                                                  (''username'', Prim (user.username newUser)),
                                                  (''email'', Prim (user.email newUser)),
                                                  (''balance'', Prim (balance newUser)),
                                                  (''role'', Str (role newUser))])]))))))"

subsection \<open>Reading a profile, a balance, the transactions\<close>

definition get_user :: "store \<Rightarrow> decoded \<Rightarrow> string \<Rightarrow> reply" where
  "get_user st req_user userId =
     (case findUserById st (JString userId) of
        None \<Rightarrow> error_reply 404 ''User not found''
      | Some i \<Rightarrow>
          (let user = users st ! i in
           Response 200
             (Object [(''id'', Str (id_u user)),
                      (''username'', Prim (username user)),
                      (''email'', Prim (email user)),
                      (''balance'', Prim (balance user)),
                      (''role'', Str (role user))])))"

definition get_balance :: "store \<Rightarrow> decoded \<Rightarrow> string \<Rightarrow> reply" where
  "get_balance st req_user userId =
     (case findUserById st (JString userId) of
        None \<Rightarrow> error_reply 404 ''User not found''
      | Some i \<Rightarrow> Response 200 (Object [(''balance'', Prim (balance (users st ! i)))]))"

definition transaction_json :: "transaction \<Rightarrow> json" where
  "transaction_json t =
     Object [(''id'', Str (id_t t)),
             (''senderId'', Prim (senderId t)),
             (''recipientId'', Prim (recipientId t)),
             (''amount'', Prim (amount t)),
             (''timestamp'', Str (timestamp t)),
             (''type'', Str (type_t t))]"

definition get_transactions :: "store \<Rightarrow> decoded \<Rightarrow> string \<Rightarrow> reply" where
  "get_transactions st req_user userId =
     (let userTransactions =
            filter (\<lambda>t. strict_eq (senderId t) (JString userId)
                        \<or> strict_eq (recipientId t) (JString userId))
                   (transactions st)
      in Response 200 (Object [(''transactions'', Array (map transaction_json userTransactions))]))"

subsection \<open>Sending money\<close>

text \<open>
  \<^verbatim>\<open>sender\<close> and \<^verbatim>\<open>recipient\<close> are references into \<^verbatim>\<open>users\<close>: the debit is written
  first, and the credit reads the array after the debit, so that a sender who is the
  recipient is debited and credited on the same object. The result is \<open>None\<close> exactly
  when a coercion outside the modelled ones would be needed.
\<close>

definition send :: "store \<Rightarrow> decoded \<Rightarrow> body \<Rightarrow> string \<Rightarrow> string \<Rightarrow> (store \<times> reply) option" where
  "send st req_user b uuid now =
     (let recipientId = b ''recipientId''; amount = b ''amount''; senderId = userId_tok req_user in
      case (if \<not> ToBoolean recipientId then Some True
            else if \<not> ToBoolean amount then Some True
            else js_le amount (JNumber (Fin 0))) of
        None \<Rightarrow> None
      | Some True \<Rightarrow> Some (st, error_reply 400 ''Valid recipient and amount required'')
      | Some False \<Rightarrow>
          (case (findUserById st senderId, findUserById st recipientId) of
             (Some sender, Some recipient) \<Rightarrow>
               (case js_lt (balance (users st ! sender)) amount of
                  None \<Rightarrow> None
                | Some True \<Rightarrow> Some (st, error_reply 400 ''Insufficient funds'')
                | Some False \<Rightarrow>
                    (case js_sub (balance (users st ! sender)) amount of
                       None \<Rightarrow> None
                     | Some debited \<Rightarrow>
                         (let users1 = (users st)[sender := (users st ! sender)\<lparr>balance := debited\<rparr>] in
                          case js_add (balance (users1 ! recipient)) amount of
                            None \<Rightarrow> None
                          | Some credited \<Rightarrow>
                              (let users2 = users1[recipient := (users1 ! recipient)\<lparr>balance := credited\<rparr>];
                                   transaction = \<lparr>id_t = uuid, senderId = senderId,
                                                    recipientId = recipientId, amount = amount,
                                                    timestamp = now, type_t = ''transfer''\<rparr>
                               in Some (st\<lparr>users := users2,
                                           transactions := transactions st @ [transaction]\<rparr>,
                                        Response 200
                                          (Object [(''message'', Str ''Transfer successful''),
                                                   (''transaction'', transaction_json transaction),
                                                   (''newBalance'', Prim (balance (users2 ! sender)))]))))))
           | _ \<Rightarrow> Some (st, error_reply 404 ''User not found'')))"

subsection \<open>Administration\<close>

definition admin_users :: "store \<Rightarrow> decoded \<Rightarrow> reply" where
  "admin_users st req_user =
     Response 200
       (Object [(''users'',
                 Array (map (\<lambda>user. Object [(''id'', Str (id_u user)),
                                              (''username'', Prim (username user)),
                                              (''email'', Prim (email user)),
                                              (''balance'', Prim (balance user)),
                                              (''role'', Str (role user))])
                            (users st)))])"

definition modify_balance :: "store \<Rightarrow> decoded \<Rightarrow> body \<Rightarrow> store \<times> reply" where
  "modify_balance st req_user b =
     (let userId = b ''userId''; newBalance = b ''newBalance'' in
      case findUserById st userId of
        None \<Rightarrow> (st, error_reply 404 ''User not found'')
      | Some i \<Rightarrow>
          (let users1 = (users st)[i := (users st ! i)\<lparr>balance := newBalance\<rparr>];
               user = users1 ! i
           in (st\<lparr>users := users1\<rparr>,
               Response 200
                 (Object [(''message'', Str ''Balance updated successfully''),
                          (''user'', Object [(''id'', Str (id_u user)),
                                             (''username'', Prim (username user)),
                                             (''balance'', Prim (balance user))])]))))"

subsection \<open>Start of the server\<close>

text \<open>The store when the server listens: no transaction, and the default administrator.\<close>

definition listen :: "string \<Rightarrow> string \<Rightarrow> store" where
  "listen uuid hashed =
     \<lparr>users = [\<lparr>id_u = uuid, username = JString ''admin'', email = JString ''admin@wallet.com'',
                 password = hashed, balance = JNumber (Fin 10000), role = ''admin''\<rparr>],
      transactions = []\<rparr>"

subsection \<open>Routes: the middleware, then the handler\<close>

datatype request =
    GetUser string
  | GetBalance string
  | GetTransactions string
  | PostSend body string string
  | GetAdminUsers
  | PostAdminModifyBalance body

definition handle :: "store \<Rightarrow> decoded \<Rightarrow> request \<Rightarrow> (store \<times> reply) option" where
  "handle st req_user r =
     (case r of
        GetUser userId \<Rightarrow> Some (st, get_user st req_user userId)
      | GetBalance userId \<Rightarrow> Some (st, get_balance st req_user userId)
      | GetTransactions userId \<Rightarrow> Some (st, get_transactions st req_user userId)
      | PostSend b uuid now \<Rightarrow> send st req_user b uuid now
      | GetAdminUsers \<Rightarrow> Some (st, admin_users st req_user)
      | PostAdminModifyBalance b \<Rightarrow> Some (modify_balance st req_user b))"

definition route :: "verifier \<Rightarrow> store \<Rightarrow> string option \<Rightarrow> request \<Rightarrow> (store \<times> reply) option" where
  "route jwt_verify st authHeader r =
     (case authenticateToken jwt_verify authHeader of
        Inl refusal \<Rightarrow> Some (st, refusal)
      | Inr req_user \<Rightarrow> handle st req_user r)"

section \<open>The gates of the remediated server\<close>

text \<open>
  The repository holds a second server, \<^verbatim>\<open>server-secure.js\<close> (its text is reproduced
  in \<^verbatim>\<open>CONTRIBUTING.md\<close>, lines 321 to 814), which puts two more middlewares between
  \<^verbatim>\<open>authenticateToken\<close> and the handlers, and answers a token that does not verify
  without the error's message. A middleware either answers (\<open>Some\<close>) or calls the next
  handler (\<open>None\<close>). \<^verbatim>\<open>a !== b\<close> is the negation of \<^verbatim>\<open>a === b\<close>.
\<close>

definition requireAdmin :: "decoded \<Rightarrow> reply option" where
  "requireAdmin req_user =
     (if \<not> strict_eq (role_tok req_user) (JString ''admin'')
      then Some (error_reply 403 ''Admin access required'')
      else None)"

definition authorizeResourceAccess :: "decoded \<Rightarrow> string \<Rightarrow> reply option" where
  "authorizeResourceAccess req_user requestedUserId =
     (let currentUserId = userId_tok req_user in
      if \<not> strict_eq (JString requestedUserId) currentUserId
         \<and> \<not> strict_eq (role_tok req_user) (JString ''admin'')
      then Some (error_reply 403 ''Access denied'')
      else None)"

text \<open>
  Its \<^verbatim>\<open>authenticateToken\<close>, with the secret generated at start, the set of
  invalidated tokens and the store as arguments.
\<close>

definition authenticateToken_secure ::
  "verifier \<Rightarrow> string \<Rightarrow> string set \<Rightarrow> store \<Rightarrow> string option \<Rightarrow> reply + decoded" where
  "authenticateToken_secure jwt_verify secret invalidatedTokens st authHeader =
     (let token = (case authHeader of
                     None \<Rightarrow> None
                   | Some h \<Rightarrow> if h = [] then Some [] else at_js (split_js CHR '' '' h) 1)
      in case token of
           None \<Rightarrow> Inl (error_reply 401 ''Access token required'')
         | Some t \<Rightarrow>
             if t = [] then Inl (error_reply 401 ''Access token required'')
             else if t \<in> invalidatedTokens
             then Inl (error_reply 403 ''Token has been invalidated'')
             else (case jwt_verify t secret of
                     Inr payload \<Rightarrow>
                       (case findUserById st (userId_tok payload) of
                          None \<Rightarrow> Inl (error_reply 403 ''User not found'')
                        | Some user \<Rightarrow> Inr payload)
                   | Inl message \<Rightarrow> Inl (error_reply 403 ''Invalid or expired token'')))"

section \<open>The transfer and the balance modification of the remediated server\<close>

text \<open>
  \<^verbatim>\<open>parseFloat\<close> reads the number that the longest numeric prefix of the argument's
  string form writes. The string form of a number reads back as that number; a string
  of decimal digits reads as the number they write, and for other strings the model
  gives no answer; the words \<^verbatim>\<open>true\<close>, \<^verbatim>\<open>false\<close>, \<^verbatim>\<open>null\<close> and \<^verbatim>\<open>undefined\<close> have
  no numeric prefix.
\<close>

fun parseFloat :: "jsval \<Rightarrow> num option" where
  "parseFloat (JNumber n) = Some n"
| "parseFloat (JString s) = StringToNumber s"
| "parseFloat _ = Some NaN"

text \<open>\<^verbatim>\<open>Math.round\<close>: the nearest integer, a half going up.\<close>

fun Math_round :: "num \<Rightarrow> num" where
  "Math_round (Fin q) = Fin (of_int \<lfloor>q + 1 / 2\<rfloor>)"
| "Math_round NaN = NaN"

fun num_mul :: "num \<Rightarrow> num \<Rightarrow> num" where
  "num_mul (Fin p) (Fin q) = Fin (p * q)"
| "num_mul _ _ = NaN"

text \<open>Division by a constant that is not zero, the only one the server has.\<close>

fun num_div :: "num \<Rightarrow> rat \<Rightarrow> num" where
  "num_div (Fin p) d = Fin (p / d)"
| "num_div NaN d = NaN"

text \<open>
  \<^verbatim>\<open>Math.round(x * 100) / 100\<close>, in exact arithmetic. The server computes it on
  doubles, where the product is rounded before \<^verbatim>\<open>Math.round\<close> sees it: the two agree
  on the inputs used below and differ on others (the server takes 1.005 to 1, the
  exact computation to 1.01).
\<close>

definition round_cents :: "num \<Rightarrow> num" where
  "round_cents x = num_div (Math_round (num_mul x (Fin 100))) 100"

text \<open>The same on a value, which \<^verbatim>\<open>*\<close> converts to a number first.\<close>

definition js_round_cents :: "jsval \<Rightarrow> jsval option" where
  "js_round_cents v = map_option (\<lambda>x. JNumber (round_cents x)) (ToNumber v)"

text \<open>
  The handlers. Both are wrapped in a \<^verbatim>\<open>try\<close> whose \<^verbatim>\<open>catch\<close> answers with status
  500; nothing in them throws on the values modelled.
\<close>

definition send_secure ::
  "store \<Rightarrow> decoded \<Rightarrow> body \<Rightarrow> string \<Rightarrow> string \<Rightarrow> (store \<times> reply) option" where
  "send_secure st req_user b uuid now =
     (let recipientId = b ''recipientId''; amount = b ''amount''; senderId = userId_tok req_user in
      if \<not> ToBoolean recipientId
      then Some (st, error_reply 400 ''Recipient and amount are required'')
      else if \<not> ToBoolean amount
      then Some (st, error_reply 400 ''Recipient and amount are required'')
      else
        (case parseFloat amount of
           None \<Rightarrow> None
         | Some numericAmount \<Rightarrow>
             if numericAmount = NaN then Some (st, error_reply 400 ''Invalid amount'')
             else if num_le numericAmount (Fin 0) then Some (st, error_reply 400 ''Invalid amount'')
             else if num_lt (Fin 1000000) numericAmount
             then Some (st, error_reply 400 ''Invalid amount'')
             else
               (let roundedAmount = round_cents numericAmount in
                case (findUserById st senderId, findUserById st recipientId) of
                  (Some sender, Some recipient) \<Rightarrow>
                    if id_u (users st ! sender) = id_u (users st ! recipient)
                    then Some (st, error_reply 400 ''Cannot send money to yourself'')
                    else
                      (case js_lt (balance (users st ! sender)) (JNumber roundedAmount) of
                         None \<Rightarrow> None
                       | Some True \<Rightarrow> Some (st, error_reply 400 ''Insufficient funds'')
                       | Some False \<Rightarrow>
                           (case Option.bind
                                   (js_sub (balance (users st ! sender)) (JNumber roundedAmount))
                                   js_round_cents of
                              None \<Rightarrow> None
                            | Some debited \<Rightarrow>
                                (let users1 = (users st)
                                       [sender := (users st ! sender)\<lparr>balance := debited\<rparr>] in
                                 case Option.bind
                                        (js_add (balance (users1 ! recipient))
                                           (JNumber roundedAmount))
                                        js_round_cents of
                                   None \<Rightarrow> None
                                 | Some credited \<Rightarrow>
                                     (let users2 = users1
                                            [recipient := (users1 ! recipient)
                                               \<lparr>balance := credited\<rparr>];
                                          transaction =
                                            \<lparr>id_t = uuid, senderId = senderId,
                                             recipientId = recipientId,
                                             amount = JNumber roundedAmount,
                                             timestamp = now, type_t = ''transfer''\<rparr>
                                      in Some (st\<lparr>users := users2,
                                                  transactions :=
                                                    transactions st @ [transaction]\<rparr>,
                                               Response 200
                                                 (Object
                                                   [(''message'', Str ''Transfer successful''),
                                                    (''transaction'',
                                                     Object
                                                      [(''id'', Str uuid),
                                                       (''amount'', Prim (JNumber roundedAmount)),
                                                       (''timestamp'', Str now),
                                                       (''recipientUsername'',
                                                        Prim (username (users2 ! recipient)))]),
                                                    (''newBalance'',
                                                     Prim (balance (users2 ! sender)))]))))))
                | _ \<Rightarrow> Some (st, error_reply 404 ''User not found''))))"

definition modify_balance_secure :: "store \<Rightarrow> decoded \<Rightarrow> body \<Rightarrow> (store \<times> reply) option" where
  "modify_balance_secure st req_user b =
     (let userId = b ''userId''; newBalance = b ''newBalance'' in
      if \<not> ToBoolean userId
      then Some (st, error_reply 400 ''User ID and new balance are required'')
      else if newBalance = JUndefined
      then Some (st, error_reply 400 ''User ID and new balance are required'')
      else
        (case parseFloat newBalance of
           None \<Rightarrow> None
         | Some numericBalance \<Rightarrow>
             if numericBalance = NaN
             then Some (st, error_reply 400 ''Invalid balance amount'')
             else if num_lt numericBalance (Fin 0)
             then Some (st, error_reply 400 ''Invalid balance amount'')
             else if num_lt (Fin 10000000) numericBalance
             then Some (st, error_reply 400 ''Invalid balance amount'')
             else
               (case findUserById st userId of
                  None \<Rightarrow> Some (st, error_reply 404 ''User not found'')
                | Some i \<Rightarrow>
                    (let users1 = (users st)[i := (users st ! i)
                                      \<lparr>balance := JNumber (round_cents numericBalance)\<rparr>];
                         user = users1 ! i
                     in Some (st\<lparr>users := users1\<rparr>,
                              Response 200
                                (Object [(''message'', Str ''Balance updated successfully''),
                                         (''user'', Object [(''id'', Str (id_u user)),
                                                            (''username'', Prim (username user)),
                                                            (''balance'', Prim (balance user))])]))))))"

section \<open>Properties of the store\<close>

text \<open>A balance that is a number, and one that is a number not below zero.\<close>

definition finite_balance :: "user \<Rightarrow> bool" where
  "finite_balance user = (case balance user of JNumber (Fin q) \<Rightarrow> True | _ \<Rightarrow> False)"

definition nonneg_balance :: "user \<Rightarrow> bool" where
  "nonneg_balance user = (case balance user of JNumber (Fin q) \<Rightarrow> 0 \<le> q | _ \<Rightarrow> False)"

text \<open>The amount of money a numeric balance stands for, and the money in the store.\<close>

definition money :: "user \<Rightarrow> rat" where
  "money user = (case balance user of JNumber (Fin q) \<Rightarrow> q | _ \<Rightarrow> 0)"

definition total_money :: "store \<Rightarrow> rat" where
  "total_money st = sum_list (map money (users st))"

section \<open>Runs of the server\<close>

text \<open>
  One step of the store is one request that can write to it: a registration, a
  transfer, a balance modification. The numeric steps are the registrations and the
  transfers whose amount is a number. A transfer on which the model gives no answer,
  because it needs a coercion that is not modelled, is no step; and the arithmetic of
  a step is exact, where the server's is that of doubles.
\<close>

inductive step :: "store \<Rightarrow> store \<Rightarrow> bool" where
  step_register: "step st (fst (register st b uuid h))"
| step_send: "send st u b uuid now = Some (st', rp) \<Longrightarrow> step st st'"
| step_modify_balance: "step st (fst (modify_balance st u b))"

inductive numeric_step :: "store \<Rightarrow> store \<Rightarrow> bool" where
  numeric_register: "numeric_step st (fst (register st b uuid h))"
| numeric_send:
    "b ''amount'' = JNumber (Fin a) \<Longrightarrow> send st u b uuid now = Some (st', rp)
     \<Longrightarrow> numeric_step st st'"

text \<open>The identifier and the name of every user, in the order of creation.\<close>

definition identities :: "store \<Rightarrow> (string \<times> jsval) list" where
  "identities st = map (\<lambda>user. (id_u user, username user)) (users st)"

section \<open>A store in use\<close>

text \<open>
  The administrator created at start and two registered users, the payloads of their
  tokens, and a verifier. The strings \<^verbatim>\<open>h.alice.s\<close> and \<^verbatim>\<open>h.admin.s\<close> stand for the
  tokens that a login signs with the server's secret. For the tokens it rejects, the
  verifier answers as the \<^verbatim>\<open>jsonwebtoken\<close> package does: \<^verbatim>\<open>jwt malformed\<close> for a
  token that is not of three parts; \<^verbatim>\<open>invalid signature\<close> for \<open>forged_token\<close>, a
  well-formed token (HS256) that was signed with the secret \<^verbatim>\<open>not-the-secret\<close>; and
  \<^verbatim>\<open>invalid token\<close> for a token of three parts whose header does not decode, which
  every other token is taken to be.
\<close>

definition alice_body :: body where
  "alice_body = no_fields(''username'' := JString ''alice'',
                          ''password'' := JString ''Password1'',
                          ''email'' := JString ''alice@wallet.com'')"

definition bob_body :: body where
  "bob_body = no_fields(''username'' := JString ''bob'',
                        ''password'' := JString ''Password2'',
                        ''email'' := JString ''bob@wallet.com'')"

definition admin_user :: user where
  "admin_user = \<lparr>id_u = ''id-admin'', username = JString ''admin'',
                  email = JString ''admin@wallet.com'', password = ''hash-admin'',
                  balance = JNumber (Fin 10000), role = ''admin''\<rparr>"

definition alice :: user where
  "alice = \<lparr>id_u = ''id-alice'', username = JString ''alice'',
             email = JString ''alice@wallet.com'', password = ''hash-alice'',
             balance = JNumber (Fin 1000), role = ''user''\<rparr>"

definition bob :: user where
  "bob = \<lparr>id_u = ''id-bob'', username = JString ''bob'',
           email = JString ''bob@wallet.com'', password = ''hash-bob'',
           balance = JNumber (Fin 1000), role = ''user''\<rparr>"

definition demo_store :: store where
  "demo_store = \<lparr>users = [admin_user, alice, bob], transactions = []\<rparr>"

definition alice_token :: decoded where
  "alice_token = \<lparr>userId_tok = JString ''id-alice'', username_tok = JString ''alice'',
                   role_tok = JString ''user''\<rparr>"

definition admin_token :: decoded where
  "admin_token = \<lparr>userId_tok = JString ''id-admin'', username_tok = JString ''admin'',
                   role_tok = JString ''admin''\<rparr>"

definition mallory_token :: decoded where
  "mallory_token = \<lparr>userId_tok = JString ''id-mallory'', username_tok = JString ''mallory'',
                     role_tok = JString ''admin''\<rparr>"

definition forged_token :: string where
  "forged_token =
     ''eyJhbGciOiJIUzI1NiIsInR5cCI6IkpXVCJ9'' @ ''.'' @
     ''eyJ1c2VySWQiOiJpZC1tYWxsb3J5IiwidXNlcm5hbWUiOiJtYWxsb3J5Iiwicm9sZSI6ImFkbWluIiwiaWF0IjoxNzAwMDAwMDAwfQ'' @ ''.'' @
     ''6u5zCMpqouWlQDdndQ14FHMZV-QYDZFH49Dcavmu2gM''"

definition test_verify :: verifier where
  "test_verify token secret =
     (if length (split_js CHR ''.'' token) \<noteq> 3 then Inl ''jwt malformed''
      else if secret = ''secret123'' \<and> token = ''h.alice.s'' then Inr alice_token
      else if secret = ''secret123'' \<and> token = ''h.admin.s'' then Inr admin_token
      else if token = forged_token
      then (if secret = ''not-the-secret'' then Inr mallory_token else Inl ''invalid signature'')
      else Inl ''invalid token'')"

definition alice_header :: "string option" where
  "alice_header = Some ''Bearer h.alice.s''"

definition admin_header :: "string option" where
  "admin_header = Some ''Bearer h.admin.s''"

text \<open>The store after alice has sent 10 to bob.\<close>

definition paid_store :: store where
  "paid_store =
     \<lparr>users = [admin_user, alice\<lparr>balance := JNumber (Fin 990)\<rparr>,
                bob\<lparr>balance := JNumber (Fin 1010)\<rparr>],
      transactions = [\<lparr>id_t = ''id-t1'', senderId = JString ''id-alice'',
                        recipientId = JString ''id-bob'', amount = JNumber (Fin 10),
                        timestamp = ''2025-01-01T00:00:00.000Z'', type_t = ''transfer''\<rparr>]\<rparr>"

section \<open>The coercions at work\<close>

lemma findIndex_Some:
  "findIndex p xs = Some i \<Longrightarrow> i < length xs \<and> p (xs ! i)"
proof (induction xs arbitrary: i)
  case Nil
  then show ?case by simp
next
  case (Cons x xs)
  show ?case
  proof (cases "p x")
    case True
    with Cons.prems show ?thesis by simp
  next
    case False
    with Cons.prems obtain j where j: "findIndex p xs = Some j" "i = Suc j"
      by auto
    with Cons.IH [of j] show ?thesis by simp
  qed
qed

lemma findIndex_None: "findIndex p xs = None \<longleftrightarrow> (\<forall>x \<in> set xs. \<not> p x)"
  by (induction xs) auto

lemma findUserById_bound: "findUserById st i = Some k \<Longrightarrow> k < length (users st)"
  by (auto simp: findUserById_def dest: findIndex_Some)

lemma findUserById_id:
  "findUserById st i = Some k \<Longrightarrow> i = JString (id_u (users st ! k))"
  by (auto simp: findUserById_def strict_eq_def dest: findIndex_Some)

section \<open>The stores in use are reached by the handlers\<close>

lemma demo_store_reached:
  "demo_store =
     fst (register
            (fst (register (listen ''id-admin'' ''hash-admin'')
                    alice_body ''id-alice'' (Some ''hash-alice'')))
            bob_body ''id-bob'' (Some ''hash-bob''))"
  by (simp add: demo_store_def admin_user_def alice_def bob_def listen_def register_def
      alice_body_def bob_body_def no_fields_def findUserByUsername_def strict_eq_def Let_def)

lemma authenticate_alice: "authenticateToken test_verify alice_header = Inr alice_token"
  by (simp add: authenticateToken_def alice_header_def at_js_def test_verify_def JWT_SECRET_def
      Let_def)

lemma authenticate_admin: "authenticateToken test_verify admin_header = Inr admin_token"
  by (simp add: authenticateToken_def admin_header_def at_js_def test_verify_def JWT_SECRET_def
      Let_def)

lemma paid_store_reached:
  "route test_verify demo_store alice_header
     (PostSend (no_fields(''recipientId'' := JString ''id-bob'', ''amount'' := JNumber (Fin 10)))
        ''id-t1'' ''2025-01-01T00:00:00.000Z'')
   = Some (paid_store,
           Response 200
             (Object [(''message'', Str ''Transfer successful''),
                      (''transaction'',
                       Object [(''id'', Str ''id-t1''),
                               (''senderId'', Str ''id-alice''),
                               (''recipientId'', Str ''id-bob''),
                               (''amount'', Prim (JNumber (Fin 10))),
                               (''timestamp'', Str ''2025-01-01T00:00:00.000Z''),
                               (''type'', Str ''transfer'')]),
                      (''newBalance'', Prim (JNumber (Fin 990)))]))"
  by (simp add: route_def authenticate_alice handle_def send_def alice_token_def
      no_fields_def js_le_def js_lt_def js_sub_def js_add_def findUserById_def strict_eq_def
      demo_store_def paid_store_def admin_user_def alice_def bob_def transaction_json_def
      Let_def)

lemmas store_defs = demo_store_def paid_store_def admin_user_def alice_def bob_def
  alice_token_def admin_token_def no_fields_def

lemmas coercion_defs = js_le_def js_lt_def js_sub_def js_add_def strict_eq_def
  StringToNumber_def NumberToString_def is_digit_def digits_value_def quotient_of_int

lemmas handler_defs = route_def handle_def send_def get_user_def get_balance_def
  get_transactions_def admin_users_def modify_balance_def register_def listen_def
  findUserById_def findUserByUsername_def transaction_json_def error_reply_def Let_def

section \<open>Who may read what\<close>

text \<open>
  The replies of the reading handlers and of the administration handlers are the same
  whoever the authenticated caller is: none of them reads \<^verbatim>\<open>req.user\<close>.
\<close>

lemma reads_ignore_caller:
  assumes "authenticateToken jwt_verify h = Inr u" and "authenticateToken jwt_verify h' = Inr u'"
  shows "route jwt_verify st h (GetUser userId) = route jwt_verify st h' (GetUser userId)"
    and "route jwt_verify st h (GetBalance userId) = route jwt_verify st h' (GetBalance userId)"
    and "route jwt_verify st h (GetTransactions userId)
         = route jwt_verify st h' (GetTransactions userId)"
    and "route jwt_verify st h GetAdminUsers = route jwt_verify st h' GetAdminUsers"
    and "route jwt_verify st h (PostAdminModifyBalance b)
         = route jwt_verify st h' (PostAdminModifyBalance b)"
  using assms
  by (simp_all add: route_def handle_def get_user_def get_balance_def get_transactions_def
      admin_users_def modify_balance_def)

text \<open>
  Whoever the authenticated caller is, the balance of every existing user is read out
  to that caller.
\<close>

lemma get_balance_any_caller:
  assumes "authenticateToken jwt_verify h = Inr u"
    and "findUserById st (JString userId) = Some i"
  shows "route jwt_verify st h (GetBalance userId)
         = Some (st, Response 200 (Object [(''balance'', Prim (balance (users st ! i)))]))"
  using assms by (simp add: route_def handle_def get_balance_def)

text \<open>
  The gate of the remediated server lets a request through exactly when the caller
  owns the resource or is an administrator.
\<close>

lemma authorizeResourceAccess_policy:
  "authorizeResourceAccess req_user requestedUserId = None
   \<longleftrightarrow> userId_tok req_user = JString requestedUserId \<or> role_tok req_user = JString ''admin''"
  by (auto simp: authorizeResourceAccess_def strict_eq_def Let_def)

lemma authorizeResourceAccess_refusal:
  "authorizeResourceAccess req_user requestedUserId \<noteq> None
   \<Longrightarrow> authorizeResourceAccess req_user requestedUserId = Some (error_reply 403 ''Access denied'')"
  by (simp add: authorizeResourceAccess_def Let_def split: if_splits)

text \<open>
  C1. The claim: a caller A who is not an administrator and asks for the profile, the
  balance or the transactions of another user B is refused with 403. The handlers
  of \<^verbatim>\<open>server.js\<close> do otherwise. In the store with the administrator, alice and
  bob, alice, whose token carries the role \<^verbatim>\<open>user\<close>, reads the balance and the whole
  profile of bob, and after a payment to bob reads the transactions filed under
  bob's identifier, each time with status 200. The gate of the remediated server
  refuses the same caller and identifier.
\<close>

theorem alice_reads_bob:
  "role_tok alice_token = JString ''user''
   \<and> route test_verify demo_store alice_header (GetBalance ''id-bob'')
       = Some (demo_store, Response 200 (Object [(''balance'', Prim (JNumber (Fin 1000)))]))
   \<and> route test_verify demo_store alice_header (GetUser ''id-bob'')
       = Some (demo_store,
               Response 200
                 (Object [(''id'', Str ''id-bob''), (''username'', Str ''bob''),
                          (''email'', Str ''bob@wallet.com''),
                          (''balance'', Prim (JNumber (Fin 1000))),
                          (''role'', Str ''user'')]))
   \<and> route test_verify paid_store alice_header (GetTransactions ''id-bob'')
       = Some (paid_store,
               Response 200
                 (Object [(''transactions'',
                           Array [Object [(''id'', Str ''id-t1''),
                                          (''senderId'', Str ''id-alice''),
                                          (''recipientId'', Str ''id-bob''),
                                          (''amount'', Prim (JNumber (Fin 10))),
                                          (''timestamp'', Str ''2025-01-01T00:00:00.000Z''),
                                          (''type'', Str ''transfer'')]])]))
   \<and> authorizeResourceAccess alice_token ''id-bob'' = Some (error_reply 403 ''Access denied'')"
  by (simp add: authenticate_alice handler_defs store_defs coercion_defs
      authorizeResourceAccess_def)

section \<open>Who may administrate\<close>

lemma requireAdmin_policy:
  "requireAdmin req_user = None \<longleftrightarrow> role_tok req_user = JString ''admin''"
  by (auto simp: requireAdmin_def strict_eq_def)

text \<open>What the balance modification writes: the value of the request, as it came.\<close>

lemma modify_balance_writes:
  assumes "findUserById st (b ''userId'') = Some i"
  shows "balance (users (fst (modify_balance st req_user b)) ! i) = b ''newBalance''"
  using assms findUserById_bound [OF assms]
  by (simp add: modify_balance_def Let_def)

text \<open>
  C2. The claim: for a caller who is not an administrator, listing all users and
  setting a balance are refused with 403, and a balance is set only to a value between
  0 and a ceiling. \<^verbatim>\<open>server.js\<close> does neither. alice, with the role \<^verbatim>\<open>user\<close>, is
  given the list of all users, and alice's request to set bob's balance to -5 is
  carried out. The remediated server's \<^verbatim>\<open>requireAdmin\<close> refuses alice.
\<close>

theorem alice_administrates:
  "role_tok alice_token = JString ''user''
   \<and> route test_verify demo_store alice_header GetAdminUsers
       = Some (demo_store,
               Response 200
                 (Object [(''users'',
                           Array [Object [(''id'', Str ''id-admin''),
                                          (''username'', Str ''admin''),
                                          (''email'', Str ''admin@wallet.com''),
                                          (''balance'', Prim (JNumber (Fin 10000))),
                                          (''role'', Str ''admin'')],
                                  Object [(''id'', Str ''id-alice''),
                                          (''username'', Str ''alice''),
                                          (''email'', Str ''alice@wallet.com''),
                                          (''balance'', Prim (JNumber (Fin 1000))),
                                          (''role'', Str ''user'')],
                                  Object [(''id'', Str ''id-bob''),
                                          (''username'', Str ''bob''),
                                          (''email'', Str ''bob@wallet.com''),
                                          (''balance'', Prim (JNumber (Fin 1000))),
                                          (''role'', Str ''user'')]])]))
   \<and> route test_verify demo_store alice_header
         (PostAdminModifyBalance
            (no_fields(''userId'' := JString ''id-bob'', ''newBalance'' := JNumber (Fin (- 5)))))
       = Some (\<lparr>users = [admin_user, alice, bob\<lparr>balance := JNumber (Fin (- 5))\<rparr>],
                 transactions = []\<rparr>,
               Response 200
                 (Object [(''message'', Str ''Balance updated successfully''),
                          (''user'', Object [(''id'', Str ''id-bob''),
                                             (''username'', Str ''bob''),
                                             (''balance'', Prim (JNumber (Fin (- 5))))])]))
   \<and> requireAdmin alice_token = Some (error_reply 403 ''Admin access required'')"
  by (simp add: authenticate_alice handler_defs store_defs coercion_defs requireAdmin_def)

section \<open>Balances and identities under the mutating operations\<close>

lemma finite_balanceE: "finite_balance u \<Longrightarrow> \<exists>q. balance u = JNumber (Fin q)"
  by (auto simp: finite_balance_def split: jsval.splits num.splits)

lemma nonneg_finite: "list_all nonneg_balance xs \<Longrightarrow> list_all finite_balance xs"
  by (auto simp: list_all_iff nonneg_balance_def finite_balance_def
      split: jsval.splits num.splits)

lemma map_id_u_balance_update:
  "map id_u (xs[i := (xs ! i)\<lparr>balance := v\<rparr>]) = map id_u xs"
  by (cases "i < length xs") (auto simp: nth_list_update intro!: nth_equalityI)

lemma map_username_balance_update:
  "map username (xs[i := (xs ! i)\<lparr>balance := v\<rparr>]) = map username xs"
  by (cases "i < length xs") (auto simp: nth_list_update intro!: nth_equalityI)

text \<open>
  No operation changes the identifier or the name of a user: a transfer and a balance
  modification keep both lists as they are, a registration appends to them.
\<close>

lemma send_keeps_identity:
  assumes "send st u b uuid now = Some (st', rp)"
  shows "map id_u (users st') = map id_u (users st)
         \<and> map username (users st') = map username (users st)"
  using assms
  by (auto simp: send_def Let_def map_id_u_balance_update map_username_balance_update
      split: option.splits bool.splits if_splits)

lemma modify_balance_keeps_identity:
  "map id_u (users (fst (modify_balance st u b))) = map id_u (users st)
   \<and> map username (users (fst (modify_balance st u b))) = map username (users st)"
  by (auto simp: modify_balance_def Let_def map_id_u_balance_update
      map_username_balance_update split: option.splits)

lemma register_keeps_identity:
  "take (length (users st)) (map id_u (users (fst (register st b uuid h))))
     = map id_u (users st)
   \<and> take (length (users st)) (map username (users (fst (register st b uuid h))))
       = map username (users st)"
  by (auto simp: register_def Let_def split: option.splits)

text \<open>A registration keeps every balance a number not below zero.\<close>

lemma register_keeps_nonneg:
  "list_all nonneg_balance (users st)
   \<Longrightarrow> list_all nonneg_balance (users (fst (register st b uuid h)))"
  by (auto simp: register_def Let_def nonneg_balance_def split: option.splits)

text \<open>
  What a transfer does when the amount is a number and every balance is one: it
  either leaves the store as it is, or debits the sender and credits the recipient by
  the amount and files one transaction.
\<close>

lemma send_number:
  assumes am: "b ''amount'' = JNumber (Fin a)"
    and out: "send st u b uuid now = Some (st', rp)"
    and fin: "list_all finite_balance (users st)"
  shows "st' = st \<or>
         (\<exists>s r p q. findUserById st (userId_tok u) = Some s
            \<and> findUserById st (b ''recipientId'') = Some r
            \<and> 0 < a \<and> balance (users st ! s) = JNumber (Fin p) \<and> a \<le> p
            \<and> balance ((users st)[s := (users st ! s)\<lparr>balance := JNumber (Fin (p - a))\<rparr>] ! r)
                = JNumber (Fin q)
            \<and> st' = st\<lparr>users :=
                         (users st)[s := (users st ! s)\<lparr>balance := JNumber (Fin (p - a))\<rparr>,
                                    r := ((users st)[s := (users st ! s)
                                                        \<lparr>balance := JNumber (Fin (p - a))\<rparr>] ! r)
                                           \<lparr>balance := JNumber (Fin (q + a))\<rparr>],
                       transactions :=
                         transactions st @
                         [\<lparr>id_t = uuid, senderId = userId_tok u,
                           recipientId = b ''recipientId'', amount = b ''amount'',
                           timestamp = now, type_t = ''transfer''\<rparr>]\<rparr>)"
proof (cases "st' = st")
  case True
  then show ?thesis by simp
next
  case False
  from out False obtain s r where
    s: "findUserById st (userId_tok u) = Some s"
    and r: "findUserById st (b ''recipientId'') = Some r"
    by (auto simp: send_def Let_def split: option.splits bool.splits if_splits)
  from s have sl: "s < length (users st)" by (rule findUserById_bound)
  from r have rl: "r < length (users st)" by (rule findUserById_bound)
  from fin sl obtain p where p: "balance (users st ! s) = JNumber (Fin p)"
    by (auto simp: list_all_length dest: finite_balanceE)
  from fin rl obtain q0 where q0: "balance (users st ! r) = JNumber (Fin q0)"
    by (auto simp: list_all_length dest: finite_balanceE)
  let ?users1 = "(users st)[s := (users st ! s)\<lparr>balance := JNumber (Fin (p - a))\<rparr>]"
  obtain q where q: "balance (?users1 ! r) = JNumber (Fin q)"
    using sl rl q0 by (cases "r = s") auto
  from out False s r p q am show ?thesis
    by (auto simp: send_def Let_def js_le_def js_lt_def js_sub_def js_add_def
        split: option.splits bool.splits if_splits)
qed

text \<open>A transfer of a numeric amount keeps every balance a number not below zero.\<close>

lemma send_keeps_nonneg:
  assumes am: "b ''amount'' = JNumber (Fin a)"
    and out: "send st u b uuid now = Some (st', rp)"
    and inv: "list_all nonneg_balance (users st)"
  shows "list_all nonneg_balance (users st')"
proof -
  from send_number [OF am out nonneg_finite [OF inv]]
  consider "st' = st"
    | s r p q where "findUserById st (userId_tok u) = Some s"
        "findUserById st (b ''recipientId'') = Some r"
        "0 < a" "balance (users st ! s) = JNumber (Fin p)" "a \<le> p"
        "balance ((users st)[s := (users st ! s)\<lparr>balance := JNumber (Fin (p - a))\<rparr>] ! r)
         = JNumber (Fin q)"
        "users st' =
           (users st)[s := (users st ! s)\<lparr>balance := JNumber (Fin (p - a))\<rparr>,
                      r := ((users st)[s := (users st ! s)
                                          \<lparr>balance := JNumber (Fin (p - a))\<rparr>] ! r)
                             \<lparr>balance := JNumber (Fin (q + a))\<rparr>]"
    by auto
  then show ?thesis
  proof cases
    case 1
    with inv show ?thesis by simp
  next
    case 2
    let ?users1 = "(users st)[s := (users st ! s)\<lparr>balance := JNumber (Fin (p - a))\<rparr>]"
    have sl: "s < length (users st)" and rl: "r < length (users st)"
      using 2(1,2) by (auto dest: findUserById_bound)
    have inv1: "list_all nonneg_balance ?users1"
      using inv 2(5) sl
      by (auto simp: list_all_length nth_list_update nonneg_balance_def)
    have "0 \<le> q"
      using inv1 rl 2(6) by (auto simp: list_all_length nonneg_balance_def)
    then have "list_all nonneg_balance
                 (?users1[r := (?users1 ! r)\<lparr>balance := JNumber (Fin (q + a))\<rparr>])"
      using inv1 2(3) rl
      by (auto simp: list_all_length nth_list_update nonneg_balance_def)
    with 2(7) show ?thesis by simp
  qed
qed

text \<open>
  Along every run of the server, the identifiers and names of the users already
  there stay what they were: later stores only append.
\<close>

lemma identities_zip: "identities st = zip (map id_u (users st)) (map username (users st))"
  by (simp add: identities_def zip_map_map zip_same_conv_map)

lemma step_identities: "step st st' \<Longrightarrow> prefix (identities st) (identities st')"
proof (induction rule: step.induct)
  case (step_register st b uuid h)
  show ?case
    by (auto simp: identities_def register_def Let_def split: option.splits)
next
  case (step_send st u b uuid now st' rp)
  from send_keeps_identity [OF this] show ?case
    by (simp add: identities_zip)
next
  case (step_modify_balance st u b)
  from modify_balance_keeps_identity [of st u b] show ?case
    by (simp add: identities_zip)
qed

lemma run_identities: "step\<^sup>*\<^sup>* st st' \<Longrightarrow> prefix (identities st) (identities st')"
proof (induction rule: rtranclp_induct)
  case base
  show ?case by simp
next
  case (step y z)
  from step.IH step_identities [OF step.hyps(2)] show ?case
    by (rule prefix_order.trans)
qed

text \<open>
  From the start of the server, registrations and transfers of numeric amounts never
  lead to a balance that is not a number or is below zero.
\<close>

lemma numeric_step_nonneg:
  "numeric_step st st' \<Longrightarrow> list_all nonneg_balance (users st)
   \<Longrightarrow> list_all nonneg_balance (users st')"
proof (induction rule: numeric_step.induct)
  case (numeric_register st b uuid h)
  then show ?case by (rule register_keeps_nonneg)
next
  case (numeric_send b a st u uuid now st' rp)
  from send_keeps_nonneg [OF numeric_send(1,2,3)] show ?case .
qed

lemma numeric_run_nonneg:
  "numeric_step\<^sup>*\<^sup>* (listen uuid hashed) st \<Longrightarrow> list_all nonneg_balance (users st)"
proof (induction rule: rtranclp_induct)
  case base
  show ?case by (simp add: listen_def nonneg_balance_def)
next
  case (step y z)
  from numeric_step_nonneg [OF step.hyps(2) step.IH] show ?case .
qed

text \<open>
  C3. The claim: after a registration, a transfer or a balance modification every
  balance is at least 0, and no identifier or name has changed. For identifiers and
  names along every run, and for balances along the runs of registrations and
  transfers of a numeric amount, the lemmas above prove it. The balance modification
  of \<^verbatim>\<open>server.js\<close> breaks it: in a store where every balance is a number not below
  zero, the administrator's request to set bob's balance to -1 is carried out, and
  bob's balance is -1.
\<close>

theorem modify_balance_below_zero:
  "list_all nonneg_balance (users demo_store)
   \<and> route test_verify demo_store admin_header
         (PostAdminModifyBalance
            (no_fields(''userId'' := JString ''id-bob'', ''newBalance'' := JNumber (Fin (- 1)))))
       = Some (\<lparr>users = [admin_user, alice, bob\<lparr>balance := JNumber (Fin (- 1))\<rparr>],
                 transactions = []\<rparr>,
               Response 200
                 (Object [(''message'', Str ''Balance updated successfully''),
                          (''user'', Object [(''id'', Str ''id-bob''),
                                             (''username'', Str ''bob''),
                                             (''balance'', Prim (JNumber (Fin (- 1))))])]))
   \<and> \<not> list_all nonneg_balance [admin_user, alice, bob\<lparr>balance := JNumber (Fin (- 1))\<rparr>]"
  by (simp add: authenticate_admin handler_defs store_defs coercion_defs nonneg_balance_def)

section \<open>Amounts are used as they come\<close>

text \<open>
  A debit of a numeric amount that the balance covers writes the exact difference,
  and the transaction carries the amount of the request: nothing is rounded.
\<close>

lemma send_exact:
  assumes "b ''amount'' = JNumber (Fin a)" and "0 < a"
    and "ToBoolean (b ''recipientId'')"
    and "findUserById st (userId_tok u) = Some s"
    and "findUserById st (b ''recipientId'') = Some r" and "r \<noteq> s"
    and "balance (users st ! s) = JNumber (Fin p)" and "a \<le> p"
    and "balance (users st ! r) = JNumber (Fin q)"
    and "send st u b uuid now = Some (st', rp)"
  shows "balance (users st' ! s) = JNumber (Fin (p - a))
         \<and> balance (users st' ! r) = JNumber (Fin (q + a))
         \<and> amount (last (transactions st')) = JNumber (Fin a)"
  using assms findUserById_bound [of st "userId_tok u" s]
    findUserById_bound [of st "b ''recipientId''" r]
  by (auto simp: send_def Let_def js_le_def js_lt_def js_sub_def js_add_def)

text \<open>
  C4. The claim: a transfer rounds the amount to two decimal places, half away from
  zero, before it compares it with the balance and before it stores anything.
  \<^verbatim>\<open>server.js\<close> has no rounding. From a balance of 1000, alice's transfer of 0.125
  leaves alice 999.875, gives bob 1000.125 and files the amount 0.125, where the
  claim asks for 0.13; and alice's transfer of 1000.004, which the claim rounds to
  the 1000.00 in the account, is refused for insufficient funds. The transfer of
  1000.005 named in the claim is refused as the claim says, because 1000 is less than
  1000.005 as it is.
\<close>

theorem send_does_not_round:
  "route test_verify demo_store alice_header
     (PostSend (no_fields(''recipientId'' := JString ''id-bob'',
                          ''amount'' := JNumber (Fin 0.125)))
        ''id-t1'' ''2025-01-01T00:00:00.000Z'')
   = Some (\<lparr>users = [admin_user, alice\<lparr>balance := JNumber (Fin 999.875)\<rparr>,
                      bob\<lparr>balance := JNumber (Fin 1000.125)\<rparr>],
             transactions = [\<lparr>id_t = ''id-t1'', senderId = JString ''id-alice'',
                               recipientId = JString ''id-bob'', amount = JNumber (Fin 0.125),
                               timestamp = ''2025-01-01T00:00:00.000Z'',
                               type_t = ''transfer''\<rparr>]\<rparr>,
           Response 200
             (Object [(''message'', Str ''Transfer successful''),
                      (''transaction'',
                       Object [(''id'', Str ''id-t1''),
                               (''senderId'', Str ''id-alice''),
                               (''recipientId'', Str ''id-bob''),
                               (''amount'', Prim (JNumber (Fin 0.125))),
                               (''timestamp'', Str ''2025-01-01T00:00:00.000Z''),
                               (''type'', Str ''transfer'')]),
                      (''newBalance'', Prim (JNumber (Fin 999.875)))]))
   \<and> route test_verify demo_store alice_header
       (PostSend (no_fields(''recipientId'' := JString ''id-bob'',
                            ''amount'' := JNumber (Fin 1000.004)))
          ''id-t1'' ''2025-01-01T00:00:00.000Z'')
     = Some (demo_store, Response 400 (Object [(''error'', Str ''Insufficient funds'')]))
   \<and> route test_verify demo_store alice_header
       (PostSend (no_fields(''recipientId'' := JString ''id-bob'',
                            ''amount'' := JNumber (Fin 1000.005)))
          ''id-t1'' ''2025-01-01T00:00:00.000Z'')
     = Some (demo_store, Response 400 (Object [(''error'', Str ''Insufficient funds'')]))"
  by (simp add: authenticate_alice handler_defs store_defs coercion_defs)

section \<open>Amounts that are refused, and sending to oneself\<close>

text \<open>
  A numeric amount that is zero or below is refused with status 400, whoever sends to
  whomever, and the store is left as it was.
\<close>

lemma send_nonpositive_amount:
  assumes "b ''amount'' = JNumber (Fin a)" and "a \<le> 0"
  shows "send st u b uuid now
         = Some (st, error_reply 400 ''Valid recipient and amount required'')"
  using assms by (simp add: send_def Let_def js_le_def)

text \<open>
  C5. The claim: a transfer of an amount that is not positive fails, a transfer to
  oneself fails, and neither changes a balance or files a transaction. The first
  half holds (lemma \<open>send_nonpositive_amount\<close>; here at -5). The second does not:
  \<^verbatim>\<open>server.js\<close> never compares the sender with the recipient. A transfer of 10
  from alice to alice is answered with status 200, the balance is debited and
  credited back to 1000, and a transaction from alice to alice is filed.
\<close>

theorem send_to_oneself:
  "route test_verify demo_store alice_header
     (PostSend (no_fields(''recipientId'' := JString ''id-bob'',
                          ''amount'' := JNumber (Fin (- 5))))
        ''id-t1'' ''2025-01-01T00:00:00.000Z'')
   = Some (demo_store,
           Response 400 (Object [(''error'', Str ''Valid recipient and amount required'')]))
   \<and> route test_verify demo_store alice_header
       (PostSend (no_fields(''recipientId'' := JString ''id-alice'',
                            ''amount'' := JNumber (Fin 10)))
          ''id-t1'' ''2025-01-01T00:00:00.000Z'')
     = Some (\<lparr>users = [admin_user, alice, bob],
               transactions = [\<lparr>id_t = ''id-t1'', senderId = JString ''id-alice'',
                                 recipientId = JString ''id-alice'',
                                 amount = JNumber (Fin 10),
                                 timestamp = ''2025-01-01T00:00:00.000Z'',
                                 type_t = ''transfer''\<rparr>]\<rparr>,
             Response 200
               (Object [(''message'', Str ''Transfer successful''),
                        (''transaction'',
                         Object [(''id'', Str ''id-t1''),
                                 (''senderId'', Str ''id-alice''),
                                 (''recipientId'', Str ''id-alice''),
                                 (''amount'', Prim (JNumber (Fin 10))),
                                 (''timestamp'', Str ''2025-01-01T00:00:00.000Z''),
                                 (''type'', Str ''transfer'')]),
                        (''newBalance'', Prim (JNumber (Fin 1000)))]))"
  by (simp add: authenticate_alice handler_defs store_defs coercion_defs)

section \<open>What a rejected token is told\<close>

lemma split_js_no_separator: "c \<notin> set s \<Longrightarrow> split_js c s = [s]"
  by (induction s) auto

text \<open>
  Whatever message the error of \<^verbatim>\<open>jwt.verify\<close> carries, the middleware of
  \<^verbatim>\<open>server.js\<close> sends it to the caller under \<^verbatim>\<open>details\<close>.
\<close>

lemma authenticateToken_details:
  assumes "jwt_verify token JWT_SECRET = Inl message" and "token \<noteq> []"
    and "CHR '' '' \<notin> set token"
  shows "authenticateToken jwt_verify (Some (''Bearer '' @ token))
         = Inl (Response 403 (Object [(''error'', Str ''Invalid token''),
                                      (''details'', Str message)]))"
  using assms by (simp add: authenticateToken_def at_js_def split_js_no_separator Let_def)

text \<open>
  The middleware of the remediated server answers every token that \<^verbatim>\<open>jwt.verify\<close>
  rejects with the same words, whatever the error's message is. (It has two more
  refusals with words of their own: for an invalidated token, and for a token whose
  user is not in the store.)
\<close>

lemma authenticateToken_secure_generic:
  assumes "jwt_verify token secret = Inl message" and "token \<noteq> []"
    and "CHR '' '' \<notin> set token" and "token \<notin> invalidatedTokens"
  shows "authenticateToken_secure jwt_verify secret invalidatedTokens st
           (Some (''Bearer '' @ token))
         = Inl (error_reply 403 ''Invalid or expired token'')"
  using assms
  by (simp add: authenticateToken_secure_def at_js_def split_js_no_separator Let_def)

text \<open>
  C6. The claim: every failed validation of a credential is answered with the same
  generic message, which does not tell which check failed and holds no text of the
  library. \<^verbatim>\<open>server.js\<close> does otherwise, whatever the verifier: when \<^verbatim>\<open>jwt.verify\<close>
  throws on two tokens with two different messages, each caller is sent status 403
  with the message of the library's error under \<^verbatim>\<open>details\<close>, so that the two replies
  differ and tell the two failures apart.
\<close>

theorem rejected_tokens_are_told_why:
  assumes "jwt_verify token JWT_SECRET = Inl message"
    and "jwt_verify token' JWT_SECRET = Inl message'"
    and "message \<noteq> message'"
    and "token \<noteq> []" and "CHR '' '' \<notin> set token"
    and "token' \<noteq> []" and "CHR '' '' \<notin> set token'"
  shows "authenticateToken jwt_verify (Some (''Bearer '' @ token))
           = Inl (Response 403 (Object [(''error'', Str ''Invalid token''),
                                        (''details'', Str message)]))
         \<and> authenticateToken jwt_verify (Some (''Bearer '' @ token'))
           = Inl (Response 403 (Object [(''error'', Str ''Invalid token''),
                                        (''details'', Str message')]))
         \<and> authenticateToken jwt_verify (Some (''Bearer '' @ token))
           \<noteq> authenticateToken jwt_verify (Some (''Bearer '' @ token'))"
proof -
  have first: "authenticateToken jwt_verify (Some (''Bearer '' @ token))
               = Inl (Response 403 (Object [(''error'', Str ''Invalid token''),
                                            (''details'', Str message)]))"
    using assms(1,4,5) by (rule authenticateToken_details)
  have second: "authenticateToken jwt_verify (Some (''Bearer '' @ token'))
                = Inl (Response 403 (Object [(''error'', Str ''Invalid token''),
                                             (''details'', Str message')]))"
    using assms(2,6,7) by (rule authenticateToken_details)
  from assms(3) have "authenticateToken jwt_verify (Some (''Bearer '' @ token))
                      \<noteq> authenticateToken jwt_verify (Some (''Bearer '' @ token'))"
    unfolding first second by simp
  with first second show ?thesis by blast
qed

text \<open>
  At the server's secret: a token that is not of three parts, and a well-formed token
  signed with another secret.
\<close>

theorem rejected_tokens_are_told_why_witness:
  "test_verify ''garbage'' JWT_SECRET = Inl ''jwt malformed''
   \<and> test_verify forged_token JWT_SECRET = Inl ''invalid signature''
   \<and> authenticateToken test_verify (Some (''Bearer '' @ ''garbage''))
       = Inl (Response 403 (Object [(''error'', Str ''Invalid token''),
                                    (''details'', Str ''jwt malformed'')]))
   \<and> authenticateToken test_verify (Some (''Bearer '' @ forged_token))
       = Inl (Response 403 (Object [(''error'', Str ''Invalid token''),
                                    (''details'', Str ''invalid signature'')]))
   \<and> authenticateToken test_verify (Some (''Bearer '' @ ''garbage''))
       \<noteq> authenticateToken test_verify (Some (''Bearer '' @ forged_token))"
proof -
  have a: "test_verify ''garbage'' JWT_SECRET = Inl ''jwt malformed''"
    by (simp add: test_verify_def)
  have b: "test_verify forged_token JWT_SECRET = Inl ''invalid signature''"
    by (simp add: test_verify_def forged_token_def JWT_SECRET_def)
  have c: "''jwt malformed'' \<noteq> ''invalid signature''"
    by simp
  have d: "''garbage'' \<noteq> []" "CHR '' '' \<notin> set ''garbage''"
    by simp_all
  have e: "forged_token \<noteq> []" "CHR '' '' \<notin> set forged_token"
    by (simp_all add: forged_token_def)
  from rejected_tokens_are_told_why
         [of test_verify "''garbage''" "''jwt malformed''" forged_token "''invalid signature''",
          OF a b c d e] a b
  show ?thesis by blast
qed

text \<open>A request without a token is answered with another status and other words.\<close>

lemma missing_token:
  "authenticateToken jwt_verify None = Inl (error_reply 401 ''Access token required'')"
  by (simp add: authenticateToken_def)

section \<open>What a registration accepts\<close>

text \<open>
  A registration looks at the name and the password only to see that neither is
  missing or empty, and that the name is not taken.
\<close>

lemma register_accepts:
  assumes "ToBoolean (b ''username'')" and "ToBoolean (b ''password'')"
    and "findUserByUsername st (b ''username'') = None"
  shows "fst (register st b uuid (Some h))
         = st\<lparr>users := users st @
                  [\<lparr>id_u = uuid, username = b ''username'', email = b ''email'',
                    password = h, balance = JNumber (Fin 1000), role = ''user''\<rparr>]\<rparr>"
  using assms by (simp add: register_def Let_def)

text \<open>
  C7. The claim: a registration with a name of fewer than 3 or more than 30
  characters, or with a password of fewer than 8 characters or without an upper-case
  letter, a lower-case letter or a digit, fails and creates no user. \<^verbatim>\<open>server.js\<close>
  checks none of this. On the store the server starts with, the registration of
  \<^verbatim>\<open>ab\<close> with the password \<^verbatim>\<open>Password1\<close> and the registration of \<^verbatim>\<open>alice\<close> with
  the password \<^verbatim>\<open>short\<close> are both answered with status 201, and each creates the
  user.
\<close>

theorem register_accepts_short_name_and_password:
  "register (listen ''id-admin'' ''hash-admin'')
     (no_fields(''username'' := JString ''ab'', ''password'' := JString ''Password1'',
                ''email'' := JString ''a@b.com''))
     ''id-ab'' (Some ''hash-ab'')
   = (\<lparr>users = [admin_user,
                 \<lparr>id_u = ''id-ab'', username = JString ''ab'', email = JString ''a@b.com'',
                   password = ''hash-ab'', balance = JNumber (Fin 1000), role = ''user''\<rparr>],
        transactions = []\<rparr>,
      Replied
        (Response 201
          (Object [(''message'', Str ''User created successfully''),
                   (''user'', Object [(''id'', Str ''id-ab''),
                                      (''username'', Str ''ab''),
                                      (''email'', Str ''a@b.com''),
                                      (''balance'', Prim (JNumber (Fin 1000))),
                                      (''role'', Str ''user'')])])))
   \<and> register (listen ''id-admin'' ''hash-admin'')
       (no_fields(''username'' := JString ''alice'', ''password'' := JString ''short'',
                  ''email'' := JString ''a@b.com''))
       ''id-alice'' (Some ''hash-short'')
     = (\<lparr>users = [admin_user,
                   \<lparr>id_u = ''id-alice'', username = JString ''alice'',
                     email = JString ''a@b.com'', password = ''hash-short'',
                     balance = JNumber (Fin 1000), role = ''user''\<rparr>],
          transactions = []\<rparr>,
        Replied
          (Response 201
            (Object [(''message'', Str ''User created successfully''),
                     (''user'', Object [(''id'', Str ''id-alice''),
                                        (''username'', Str ''alice''),
                                        (''email'', Str ''a@b.com''),
                                        (''balance'', Prim (JNumber (Fin 1000))),
                                        (''role'', Str ''user'')])])))"
  by (simp add: handler_defs store_defs coercion_defs)

section \<open>Two transfers, one after the other\<close>

text \<open>
  The handler of a transfer has no \<^verbatim>\<open>await\<close>: it runs from its first statement to
  its reply as one step on the store. Two transfers of 600 from a balance of 1000,
  taken one after the other: the first succeeds and leaves 400, the second is refused.
\<close>

lemma send_600_twice:
  "route test_verify demo_store alice_header
     (PostSend (no_fields(''recipientId'' := JString ''id-bob'',
                          ''amount'' := JNumber (Fin 600)))
        ''id-t1'' ''2025-01-01T00:00:00.000Z'')
   = Some (\<lparr>users = [admin_user, alice\<lparr>balance := JNumber (Fin 400)\<rparr>,
                      bob\<lparr>balance := JNumber (Fin 1600)\<rparr>],
             transactions = [\<lparr>id_t = ''id-t1'', senderId = JString ''id-alice'',
                               recipientId = JString ''id-bob'', amount = JNumber (Fin 600),
                               timestamp = ''2025-01-01T00:00:00.000Z'',
                               type_t = ''transfer''\<rparr>]\<rparr>,
           Response 200
             (Object [(''message'', Str ''Transfer successful''),
                      (''transaction'',
                       Object [(''id'', Str ''id-t1''),
                               (''senderId'', Str ''id-alice''),
                               (''recipientId'', Str ''id-bob''),
                               (''amount'', Prim (JNumber (Fin 600))),
                               (''timestamp'', Str ''2025-01-01T00:00:00.000Z''),
                               (''type'', Str ''transfer'')]),
                      (''newBalance'', Prim (JNumber (Fin 400)))]))
   \<and> route test_verify
       \<lparr>users = [admin_user, alice\<lparr>balance := JNumber (Fin 400)\<rparr>,
                 bob\<lparr>balance := JNumber (Fin 1600)\<rparr>],
        transactions = [\<lparr>id_t = ''id-t1'', senderId = JString ''id-alice'',
                          recipientId = JString ''id-bob'', amount = JNumber (Fin 600),
                          timestamp = ''2025-01-01T00:00:00.000Z'',
                          type_t = ''transfer''\<rparr>]\<rparr>
       alice_header
       (PostSend (no_fields(''recipientId'' := JString ''id-bob'',
                            ''amount'' := JNumber (Fin 600)))
          ''id-t2'' ''2025-01-01T00:00:00.001Z'')
     = Some (\<lparr>users = [admin_user, alice\<lparr>balance := JNumber (Fin 400)\<rparr>,
                        bob\<lparr>balance := JNumber (Fin 1600)\<rparr>],
               transactions = [\<lparr>id_t = ''id-t1'', senderId = JString ''id-alice'',
                                 recipientId = JString ''id-bob'', amount = JNumber (Fin 600),
                                 timestamp = ''2025-01-01T00:00:00.000Z'',
                                 type_t = ''transfer''\<rparr>]\<rparr>,
             Response 400 (Object [(''error'', Str ''Insufficient funds'')]))"
  by (simp add: authenticate_alice handler_defs store_defs coercion_defs)

section \<open>The money in the store\<close>

lemma sum_list_update_rat:
  "i < length xs \<Longrightarrow> sum_list (xs[i := y]) = sum_list xs - xs ! i + (y :: rat)"
proof (induction xs arbitrary: i)
  case Nil
  then show ?case by simp
next
  case (Cons x xs)
  then show ?case by (cases i) auto
qed

lemma money_update: "money (user\<lparr>balance := JNumber (Fin v)\<rparr>) = v"
  by (simp add: money_def)

lemma sum_money_update:
  "i < length xs \<Longrightarrow>
   sum_list (map money (xs[i := (xs ! i)\<lparr>balance := JNumber (Fin v)\<rparr>]))
   = sum_list (map money xs) - money (xs ! i) + v"
  by (simp add: map_update sum_list_update_rat money_update)

text \<open>
  A transfer of a numeric amount, between users whose balances are numbers, keeps the
  sum of the balances, also when the sender is the recipient. This is a fact of the
  exact arithmetic of the model; on doubles a debit and a credit of the same amount
  can round differently.
\<close>

lemma send_conserves_money:
  assumes am: "b ''amount'' = JNumber (Fin a)"
    and out: "send st u b uuid now = Some (st', rp)"
    and fin: "list_all finite_balance (users st)"
  shows "total_money st' = total_money st"
proof -
  from send_number [OF am out fin]
  consider "st' = st"
    | s r p q where "findUserById st (userId_tok u) = Some s"
        "findUserById st (b ''recipientId'') = Some r"
        "balance (users st ! s) = JNumber (Fin p)"
        "balance ((users st)[s := (users st ! s)\<lparr>balance := JNumber (Fin (p - a))\<rparr>] ! r)
         = JNumber (Fin q)"
        "users st' =
           (users st)[s := (users st ! s)\<lparr>balance := JNumber (Fin (p - a))\<rparr>,
                      r := ((users st)[s := (users st ! s)
                                          \<lparr>balance := JNumber (Fin (p - a))\<rparr>] ! r)
                             \<lparr>balance := JNumber (Fin (q + a))\<rparr>]"
    by auto
  then show ?thesis
  proof cases
    case 1
    then show ?thesis by simp
  next
    case 2
    let ?users1 = "(users st)[s := (users st ! s)\<lparr>balance := JNumber (Fin (p - a))\<rparr>]"
    have sl: "s < length (users st)" and rl: "r < length (users st)"
      using 2(1,2) by (auto dest: findUserById_bound)
    have m1: "sum_list (map money ?users1) = sum_list (map money (users st)) - p + (p - a)"
      using sl 2(3) sum_money_update [of s "users st" "p - a"] by (simp add: money_def)
    have "sum_list (map money (?users1[r := (?users1 ! r)\<lparr>balance := JNumber (Fin (q + a))\<rparr>]))
          = sum_list (map money ?users1) - money (?users1 ! r) + (q + a)"
      using rl by (intro sum_money_update) simp
    also have "money (?users1 ! r) = q"
      using 2(4) by (simp add: money_def)
    finally show ?thesis
      using m1 2(5) by (simp add: total_money_def)
  qed
qed

text \<open>A transfer leaves every user alone who is neither its sender nor its recipient.\<close>

lemma send_others_unchanged:
  assumes out: "send st u b uuid now = Some (st', rp)"
    and k: "JString (id_u (users st ! k)) \<noteq> userId_tok u"
           "JString (id_u (users st ! k)) \<noteq> b ''recipientId''"
  shows "users st' ! k = users st ! k \<and> length (users st') = length (users st)"
proof (cases "st' = st")
  case True
  then show ?thesis by simp
next
  case False
  from out False obtain s r where
    s: "findUserById st (userId_tok u) = Some s"
    and r: "findUserById st (b ''recipientId'') = Some r"
    by (auto simp: send_def Let_def split: option.splits bool.splits if_splits)
  from s k(1) have "k \<noteq> s" by (auto dest: findUserById_id)
  moreover from r k(2) have "k \<noteq> r" by (auto dest: findUserById_id)
  ultimately show ?thesis
    using out s r
    by (auto simp: send_def Let_def split: option.splits bool.splits if_splits)
qed

text \<open>
  C9. The claim: every successful transfer debits the sender by what it credits the
  recipient, so that the sum of the balances stays the same. For an amount that is a
  number the lemmas above prove it. The handler does not ask for a number, though:
  when the amount of the request is the string \<^verbatim>\<open>"5"\<close>, the comparisons and the
  subtraction read it as 5, and the addition concatenates. alice's balance goes from
  1000 to 995, bob's from 1000 to the string \<^verbatim>\<open>"10005"\<close>, and the reply is status 200.
\<close>

theorem send_string_amount:
  "route test_verify demo_store alice_header
     (PostSend (no_fields(''recipientId'' := JString ''id-bob'', ''amount'' := JString ''5''))
        ''id-t1'' ''2025-01-01T00:00:00.000Z'')
   = Some (\<lparr>users = [admin_user, alice\<lparr>balance := JNumber (Fin 995)\<rparr>,
                      bob\<lparr>balance := JString ''10005''\<rparr>],
             transactions = [\<lparr>id_t = ''id-t1'', senderId = JString ''id-alice'',
                               recipientId = JString ''id-bob'', amount = JString ''5'',
                               timestamp = ''2025-01-01T00:00:00.000Z'',
                               type_t = ''transfer''\<rparr>]\<rparr>,
           Response 200
             (Object [(''message'', Str ''Transfer successful''),
                      (''transaction'',
                       Object [(''id'', Str ''id-t1''),
                               (''senderId'', Str ''id-alice''),
                               (''recipientId'', Str ''id-bob''),
                               (''amount'', Str ''5''),
                               (''timestamp'', Str ''2025-01-01T00:00:00.000Z''),
                               (''type'', Str ''transfer'')]),
                      (''newBalance'', Prim (JNumber (Fin 995)))]))"
  by (simp add: authenticate_alice handler_defs store_defs coercion_defs)

section \<open>The remediated server on the same requests\<close>

lemmas secure_defs = send_secure_def modify_balance_secure_def round_cents_def
  js_round_cents_def

lemma floor_numeral_div_rat:
  "\<lfloor>numeral a / numeral b :: rat\<rfloor> = numeral a div numeral b"
  using floor_divide_of_int_eq [of "numeral a" "numeral b", where ?'a = rat] by simp

text \<open>
  The transfer of the remediated server rounds 1000.005 to 1000.01 and refuses it on a
  balance of 1000; refuses a transfer to oneself; stores 0.125 as 0.13; and reads the
  string \<^verbatim>\<open>"5"\<close> as the number 5 before it computes.
\<close>

lemma send_secure_examples:
  "round_cents (Fin 1000.005) = Fin 1000.01
   \<and> send_secure demo_store alice_token
       (no_fields(''recipientId'' := JString ''id-bob'', ''amount'' := JNumber (Fin 1000.005)))
       ''id-t1'' ''2025-01-01T00:00:00.000Z''
     = Some (demo_store, error_reply 400 ''Insufficient funds'')
   \<and> send_secure demo_store alice_token
       (no_fields(''recipientId'' := JString ''id-alice'', ''amount'' := JNumber (Fin 10)))
       ''id-t1'' ''2025-01-01T00:00:00.000Z''
     = Some (demo_store, error_reply 400 ''Cannot send money to yourself'')
   \<and> send_secure demo_store alice_token
       (no_fields(''recipientId'' := JString ''id-bob'', ''amount'' := JNumber (Fin 0.125)))
       ''id-t1'' ''2025-01-01T00:00:00.000Z''
     = Some (\<lparr>users = [admin_user, alice\<lparr>balance := JNumber (Fin 999.87)\<rparr>,
                        bob\<lparr>balance := JNumber (Fin 1000.13)\<rparr>],
               transactions = [\<lparr>id_t = ''id-t1'', senderId = JString ''id-alice'',
                                 recipientId = JString ''id-bob'',
                                 amount = JNumber (Fin 0.13),
                                 timestamp = ''2025-01-01T00:00:00.000Z'',
                                 type_t = ''transfer''\<rparr>]\<rparr>,
             Response 200
               (Object [(''message'', Str ''Transfer successful''),
                        (''transaction'',
                         Object [(''id'', Str ''id-t1''),
                                 (''amount'', Prim (JNumber (Fin 0.13))),
                                 (''timestamp'', Str ''2025-01-01T00:00:00.000Z''),
                                 (''recipientUsername'', Str ''bob'')]),
                        (''newBalance'', Prim (JNumber (Fin 999.87)))]))
   \<and> send_secure demo_store alice_token
       (no_fields(''recipientId'' := JString ''id-bob'', ''amount'' := JString ''5''))
       ''id-t1'' ''2025-01-01T00:00:00.000Z''
     = Some (\<lparr>users = [admin_user, alice\<lparr>balance := JNumber (Fin 995)\<rparr>,
                        bob\<lparr>balance := JNumber (Fin 1005)\<rparr>],
               transactions = [\<lparr>id_t = ''id-t1'', senderId = JString ''id-alice'',
                                 recipientId = JString ''id-bob'',
                                 amount = JNumber (Fin 5),
                                 timestamp = ''2025-01-01T00:00:00.000Z'',
                                 type_t = ''transfer''\<rparr>]\<rparr>,
             Response 200
               (Object [(''message'', Str ''Transfer successful''),
                        (''transaction'',
                         Object [(''id'', Str ''id-t1''),
                                 (''amount'', Prim (JNumber (Fin 5))),
                                 (''timestamp'', Str ''2025-01-01T00:00:00.000Z''),
                                 (''recipientUsername'', Str ''bob'')]),
                        (''newBalance'', Prim (JNumber (Fin 995)))]))"
  by (simp add: secure_defs handler_defs store_defs coercion_defs floor_numeral_div_rat)

text \<open>It never carries out a transfer whose recipient is the sender.\<close>

lemma send_secure_self:
  assumes "b ''recipientId'' = userId_tok u"
    and "send_secure st u b uuid now = Some (st', rp)"
  shows "st' = st \<and> status rp \<noteq> 200"
  using assms
  by (auto simp: send_secure_def Let_def error_reply_def
      split: option.splits if_splits bool.splits)

lemma round_cents_Fin:
  "round_cents (Fin q) = Fin (of_int \<lfloor>q * 100 + 1 / 2\<rfloor> / 100)"
  by (simp add: round_cents_def)

lemma round_cents_nonneg:
  "0 \<le> q \<Longrightarrow> nonneg_balance (user\<lparr>balance := JNumber (round_cents (Fin q))\<rparr>)"
  by (simp add: round_cents_Fin nonneg_balance_def)

text \<open>Its balance modification keeps every balance a number not below zero.\<close>

lemma modify_balance_secure_keeps_nonneg:
  assumes "list_all nonneg_balance (users st)"
    and "modify_balance_secure st u b = Some (st', rp)"
  shows "list_all nonneg_balance (users st')"
proof (cases "st' = st")
  case True
  with assms show ?thesis by simp
next
  case False
  with assms(2) obtain i x where
    i: "findUserById st (b ''userId'') = Some i"
    and x: "x \<noteq> NaN" "\<not> num_lt x (Fin 0)"
    and st': "users st' = (users st)[i := (users st ! i)\<lparr>balance := JNumber (round_cents x)\<rparr>]"
    by (auto simp: modify_balance_secure_def Let_def split: option.splits if_splits)
  from x obtain q where q: "x = Fin q" "0 \<le> q"
    by (cases x) auto
  from assms(1) round_cents_nonneg [OF q(2)] show ?thesis
    unfolding st' q(1)
    by (auto simp: list_all_iff dest!: set_update_subset_insert [THEN subsetD])
qed

section \<open>Reading the transactions of an identifier nobody has\<close>

text \<open>The reply does not depend on which users the store holds.\<close>

lemma get_transactions_ignores_users:
  "get_transactions (st\<lparr>users := us\<rparr>) req_user userId = get_transactions st req_user userId"
  by (simp add: get_transactions_def)

text \<open>
  C10. For every caller whom the middleware lets through, the transaction history of
  a \<open>userId\<close> that is the identifier of no user and occurs in no transaction is
  answered with status 200 and an empty list, not with 404: the handler filters the
  transactions and never looks the user up. The store is left as it was.
\<close>

theorem transactions_of_unknown_user:
  assumes "authenticateToken jwt_verify authHeader = Inr req_user"
    and "findUserById st (JString userId) = None"
    and "\<forall>t \<in> set (transactions st).
           senderId t \<noteq> JString userId \<and> recipientId t \<noteq> JString userId"
  shows "route jwt_verify st authHeader (GetTransactions userId)
         = Some (st, Response 200 (Object [(''transactions'', Array [])]))"
proof -
  have "filter (\<lambda>t. strict_eq (senderId t) (JString userId)
                    \<or> strict_eq (recipientId t) (JString userId)) (transactions st) = []"
    using assms(3) by (auto simp: filter_empty_conv strict_eq_def)
  then show ?thesis
    using assms(1) by (simp add: route_def handle_def get_transactions_def Let_def)
qed

theorem transactions_of_unknown_user_witness:
  "authenticateToken test_verify alice_header = Inr alice_token
   \<and> findUserById paid_store (JString ''id-nobody'') = None
   \<and> transactions paid_store \<noteq> []
   \<and> route test_verify paid_store alice_header (GetTransactions ''id-nobody'')
       = Some (paid_store, Response 200 (Object [(''transactions'', Array [])]))"
proof -
  have a: "authenticateToken test_verify alice_header = Inr alice_token"
    by (rule authenticate_alice)
  have b: "findUserById paid_store (JString ''id-nobody'') = None"
    by (simp add: findUserById_def paid_store_def admin_user_def alice_def bob_def strict_eq_def)
  have c: "\<forall>t \<in> set (transactions paid_store).
             senderId t \<noteq> JString ''id-nobody'' \<and> recipientId t \<noteq> JString ''id-nobody''"
    by (simp add: paid_store_def)
  have d: "transactions paid_store \<noteq> []"
    by (simp add: paid_store_def)
  from transactions_of_unknown_user [OF a b c] a b d show ?thesis by simp
qed

end
